theory Spec2Isabelle
  imports Complex_Main
begin

section \<open>JavaScript numbers and arrays\<close>

text \<open>
  The calculation services work on JavaScript \<^verbatim>\<open>number\<close>s and \<^verbatim>\<open>number[]\<close>s. What their
  control flow depends on is kept: the value \<open>NaN\<close>, the two infinities, overflow of a
  finite result to an infinity, division by zero, and comparisons with \<open>NaN\<close> being false.
  A finite value is a real number: rounding to 53 bits and the sign of zero are not
  modelled (every zero is \<open>+0\<close>), and \<^verbatim>\<open>Math.log\<close>, \<^verbatim>\<open>Math.log10\<close>, \<^verbatim>\<open>Math.exp\<close> and
  \<^verbatim>\<open>Math.sqrt\<close> are the real functions. A finite result of magnitude at least
  \<open>2^1024 - 2^970\<close> overflows, as in IEEE 754 binary64 with round-to-nearest. The
  general theorems below use of arithmetic only facts that binary64 has too (such as
  \<open>x - x = 0\<close> for a finite \<open>x\<close>), and the concrete inputs are chosen so that rounding
  does not change what they show.
\<close>

datatype number = Fin real | PInf | NInf | NaN

definition overflow_threshold :: real where
  "overflow_threshold = 2 ^ 1024 - 2 ^ 970"

definition fin :: "real \<Rightarrow> number" where
  "fin r = (if overflow_threshold \<le> r then PInf
            else if r \<le> - overflow_threshold then NInf
            else Fin r)"

instantiation number :: "{plus, minus, uminus, times, inverse, ord}"
begin

fun plus_number :: "number \<Rightarrow> number \<Rightarrow> number" where
  "NaN + _ = NaN"
| "_ + NaN = NaN"
| "Fin a + Fin b = fin (a + b)"
| "PInf + NInf = NaN"
| "NInf + PInf = NaN"
| "PInf + _ = PInf"
| "NInf + _ = NInf"
| "_ + PInf = PInf"
| "_ + NInf = NInf"

fun uminus_number :: "number \<Rightarrow> number" where
  "- Fin a = Fin (- a)"
| "- PInf = NInf"
| "- NInf = PInf"
| "- NaN = NaN"

definition minus_number :: "number \<Rightarrow> number \<Rightarrow> number" where
  "x - y = x + (- y)" for x y :: number

fun times_number :: "number \<Rightarrow> number \<Rightarrow> number" where
  "NaN * _ = NaN"
| "_ * NaN = NaN"
| "Fin a * Fin b = fin (a * b)"
| "Fin a * PInf = (if a = 0 then NaN else if 0 < a then PInf else NInf)"
| "Fin a * NInf = (if a = 0 then NaN else if 0 < a then NInf else PInf)"
| "PInf * Fin b = (if b = 0 then NaN else if 0 < b then PInf else NInf)"
| "NInf * Fin b = (if b = 0 then NaN else if 0 < b then NInf else PInf)"
| "PInf * PInf = PInf"
| "PInf * NInf = NInf"
| "NInf * PInf = NInf"
| "NInf * NInf = PInf"

fun divide_number :: "number \<Rightarrow> number \<Rightarrow> number" where
  "divide_number NaN _ = NaN"
| "divide_number _ NaN = NaN"
| "divide_number (Fin a) (Fin b) =
     (if b = 0 then (if a = 0 then NaN else if 0 < a then PInf else NInf)
      else fin (a / b))"
| "divide_number (Fin a) PInf = Fin 0"
| "divide_number (Fin a) NInf = Fin 0"
| "divide_number PInf (Fin b) = (if 0 \<le> b then PInf else NInf)"
| "divide_number NInf (Fin b) = (if 0 \<le> b then NInf else PInf)"
| "divide_number _ _ = NaN"

definition inverse_number :: "number \<Rightarrow> number" where
  "inverse_number y = Fin 1 div y"

fun less_number :: "number \<Rightarrow> number \<Rightarrow> bool" where
  "Fin a < Fin b \<longleftrightarrow> a < b"
| "Fin a < PInf \<longleftrightarrow> True"
| "NInf < Fin b \<longleftrightarrow> True"
| "NInf < PInf \<longleftrightarrow> True"
| "(_ :: number) < _ \<longleftrightarrow> False"

fun less_eq_number :: "number \<Rightarrow> number \<Rightarrow> bool" where
  "Fin a \<le> Fin b \<longleftrightarrow> a \<le> b"
| "NaN \<le> _ \<longleftrightarrow> False"
| "_ \<le> NaN \<longleftrightarrow> False"
| "_ \<le> PInf \<longleftrightarrow> True"
| "NInf \<le> _ \<longleftrightarrow> True"
| "(_ :: number) \<le> _ \<longleftrightarrow> False"

instance ..

end

text \<open>The global \<^verbatim>\<open>isFinite\<close> and the \<^verbatim>\<open>Math\<close> functions the services call.\<close>

fun isFinite :: "number \<Rightarrow> bool" where
  "isFinite (Fin _) = True"
| "isFinite _ = False"

fun Math_log :: "number \<Rightarrow> number" where
  "Math_log (Fin a) = (if a < 0 then NaN else if a = 0 then NInf else Fin (ln a))"
| "Math_log PInf = PInf"
| "Math_log _ = NaN"

fun Math_log10 :: "number \<Rightarrow> number" where
  "Math_log10 (Fin a) = (if a < 0 then NaN else if a = 0 then NInf else Fin (log 10 a))"
| "Math_log10 PInf = PInf"
| "Math_log10 _ = NaN"


fun Math_sqrt :: "number \<Rightarrow> number" where
  "Math_sqrt (Fin a) = (if a < 0 then NaN else Fin (sqrt a))"
| "Math_sqrt PInf = PInf"
| "Math_sqrt _ = NaN"

fun Math_abs :: "number \<Rightarrow> number" where
  "Math_abs (Fin a) = Fin \<bar>a\<bar>"
| "Math_abs NaN = NaN"
| "Math_abs _ = PInf"

fun Math_min :: "number \<Rightarrow> number \<Rightarrow> number" where
  "Math_min NaN _ = NaN"
| "Math_min _ NaN = NaN"
| "Math_min a b = (if a < b then a else b)"

fun Math_max :: "number \<Rightarrow> number \<Rightarrow> number" where
  "Math_max NaN _ = NaN"
| "Math_max _ NaN = NaN"
| "Math_max a b = (if b < a then a else b)"

text \<open>
  Arrays are lists. Reading outside the array, or a hole left by \<^verbatim>\<open>new Array(n)\<close>, gives
  \<^verbatim>\<open>undefined\<close>; every place of these services that reads an element uses it in
  arithmetic, in a comparison or in \<^verbatim>\<open>isFinite\<close>, which all convert \<^verbatim>\<open>undefined\<close> to
  \<open>NaN\<close>, so the model reads \<open>NaN\<close> there. Writing at an index at or beyond the length
  extends the array; writing at a negative index sets a property of the object and
  leaves the elements and the length alone.
\<close>

definition js_get :: "number list \<Rightarrow> int \<Rightarrow> number" where
  "js_get xs i = (if 0 \<le> i \<and> i < int (length xs) then xs ! nat i else NaN)"

definition js_set :: "number list \<Rightarrow> int \<Rightarrow> number \<Rightarrow> number list" where
  "js_set xs i v =
     (if i < 0 then xs
      else if nat i < length xs then xs[nat i := v]
      else xs @ replicate (nat i - length xs) NaN @ [v])"

definition new_Array :: "nat \<Rightarrow> number list" where
  "new_Array n = replicate n NaN"

text \<open>\<^verbatim>\<open>xs.map((v, i) => f(v, i))\<close>\<close>

definition map_index :: "(number \<Rightarrow> int \<Rightarrow> 'b) \<Rightarrow> number list \<Rightarrow> 'b list" where
  "map_index f xs = map (\<lambda>(i, v). f v (int i)) (enumerate 0 xs)"

section \<open>numerical.utils.ts\<close>

text \<open>The loop \<^verbatim>\<open>for (let i = 1; i < n; i++)\<close> is a fold over \<open>[1..<n]\<close> on the array.\<close>

definition trapezoidalIntegrate :: "number list \<Rightarrow> number list \<Rightarrow> number list" where
  "trapezoidalIntegrate x y =
     (let n = length x;
          integral = js_set [] 0 (Fin 0)
      in foldl (\<lambda>integral k.
           let i = int k;
               dx = js_get x i - js_get x (i - 1);
               avgY = (js_get y i + js_get y (i - 1)) / Fin 2
           in js_set integral i (js_get integral (i - 1) + avgY * dx))
         integral [1..<n])"

definition logarithmicDerivative :: "number list \<Rightarrow> number list \<Rightarrow> number list" where
  "logarithmicDerivative x y =
     (let n = int (length x);
          derivative = new_Array (length x);
          derivative = js_set derivative 0
            ((js_get y 1 - js_get y 0) / Math_log (js_get x 1 / js_get x 0));
          derivative = foldl (\<lambda>derivative k.
              let i = int k;
                  dLogX = Math_log (js_get x (i + 1) / js_get x (i - 1));
                  dY = js_get y (i + 1) - js_get y (i - 1)
              in js_set derivative i (dY / dLogX))
            derivative [1..<length x - 1]
      in js_set derivative (n - 1)
           ((js_get y (n - 1) - js_get y (n - 2)) / Math_log (js_get x (n - 1) / js_get x (n - 2))))"

text \<open>
  \<^verbatim>\<open>movingAverage\<close>: the window size is a natural number (the only call passes 5), so
  \<^verbatim>\<open>Math.floor(windowSize / 2)\<close> is \<open>windowSize div 2\<close>; \<open>count\<close> counts the inner loop's
  iterations.
\<close>

definition movingAverage :: "number list \<Rightarrow> nat \<Rightarrow> number list" where
  "movingAverage data windowSize =
     (let n = length data;
          smoothed = new_Array n;
          halfWindow = windowSize div 2
      in foldl (\<lambda>smoothed i.
           let start = max 0 (int i - int halfWindow);
               end = min (int n - 1) (int i + int halfWindow);
               (sum, count) = foldl (\<lambda>(sum, count) j. (sum + js_get data j, count + 1))
                                (Fin 0, 0 :: nat) [start..end]
           in js_set smoothed (int i) (sum / Fin (real count)))
         smoothed [0..<n])"

text \<open>A \<^verbatim>\<open>Date\<close> is its time value \<^verbatim>\<open>getTime()\<close>, in milliseconds.\<close>

definition datesToDays :: "number list \<Rightarrow> number list" where
  "datesToDays dates =
     (if length dates = 0 then []
      else let startTime = js_get dates 0
           in map (\<lambda>date. (date - startTime) / Fin (1000 * 60 * 60 * 24)) dates)"

section \<open>Private helpers of blasingame-calculation.service.ts\<close>

definition calculateMaterialBalanceTime :: "number list \<Rightarrow> number list \<Rightarrow> number list" where
  "calculateMaterialBalanceTime rates cumulative =
     foldl (\<lambda>te k.
        let i = int k
        in if js_get rates i > Fin 0
           then js_set te i (js_get cumulative i / js_get rates i)
           else js_set te i (if i > 0 then js_get te (i - 1) else Fin 0.001))
       (new_Array (length rates)) [0..<length rates]"

text \<open>An absent \<^verbatim>\<open>pressures\<close> is \<open>None\<close>; an array, also the empty one, is truthy.\<close>

definition calculatePressureDrops :: "number list option \<Rightarrow> number \<Rightarrow> nat \<Rightarrow> number list" where
  "calculatePressureDrops pressures initialPressure dataLength =
     (if pressures \<noteq> None \<and> length (the pressures) = dataLength
      then map (\<lambda>p. let dp = initialPressure - p in if dp > Fin 0 then dp else Fin 100)
             (the pressures)
      else let avgDrawdown = initialPressure * Fin 0.35
           in replicate dataLength avgDrawdown)"

definition calculateNormalizedRate :: "number list \<Rightarrow> number list \<Rightarrow> number list" where
  "calculateNormalizedRate rates pressureDrops =
     map_index (\<lambda>q i. q / js_get pressureDrops i) rates"

definition calculateRateIntegral :: "number list \<Rightarrow> number list \<Rightarrow> number list" where
  "calculateRateIntegral materialBalanceTime qDd =
     (let integral = trapezoidalIntegrate materialBalanceTime qDd
      in map_index (\<lambda>intVal i.
           let te = js_get materialBalanceTime i
           in if te > Fin 0 then intVal / te else Fin 0) integral)"

definition calculateRateIntegralDerivative :: "number list \<Rightarrow> number list \<Rightarrow> number list" where
  "calculateRateIntegralDerivative materialBalanceTime qDdi =
     (let smoothedQDdi = movingAverage qDdi 5
      in logarithmicDerivative materialBalanceTime smoothedQDdi)"

text \<open>\<^verbatim>\<open>cleanData\<close> takes and returns an object holding the four arrays; here, a 4-tuple.\<close>

definition cleanData ::
  "number list \<times> number list \<times> number list \<times> number list \<Rightarrow>
   number list \<times> number list \<times> number list \<times> number list" where
  "cleanData data =
     (let (materialBalanceTime, qDd, qDdi, qDdid) = data;
          valid = filter (\<lambda>i.
              isFinite (js_get materialBalanceTime i) \<and>
              isFinite (js_get qDd i) \<and>
              isFinite (js_get qDdi i) \<and>
              isFinite (js_get qDdid i) \<and>
              js_get materialBalanceTime i > Fin 0 \<and>
              js_get qDd i > Fin 0 \<and>
              js_get qDdi i > Fin 0 \<and>
              js_get qDdid i > Fin 0)
            (map int [0..<length materialBalanceTime])
        in (map (\<lambda>i. js_get materialBalanceTime i) valid,
            map (\<lambda>i. js_get qDd i) valid,
            map (\<lambda>i. js_get qDdi i) valid,
            map (\<lambda>i. js_get qDdid i) valid))"

definition calculateLogLogSlope :: "number list \<Rightarrow> number list \<Rightarrow> number list" where
  "calculateLogLogSlope x y =
     (let logX = map Math_log10 x;
          logY = map Math_log10 y;
          n = int (length logX);
          slopes = new_Array (length logX);
          slopes = js_set slopes 0
            ((js_get logY 1 - js_get logY 0) / (js_get logX 1 - js_get logX 0));
          slopes = foldl (\<lambda>slopes k.
              let i = int k
              in js_set slopes i
                   ((js_get logY (i + 1) - js_get logY (i - 1)) /
                    (js_get logX (i + 1) - js_get logX (i - 1))))
            slopes [1..<length logX - 1]
      in js_set slopes (n - 1)
           ((js_get logY (n - 1) - js_get logY (n - 2)) /
            (js_get logX (n - 1) - js_get logX (n - 2))))"

definition averageSlope :: "number list \<Rightarrow> int \<Rightarrow> int \<Rightarrow> number" where
  "averageSlope slopes start end =
     (let (sum, count) = foldl (\<lambda>(sum, count) i.
             if isFinite (js_get slopes i) then (sum + js_get slopes i, count + 1)
             else (sum, count))
           (Fin 0, 0 :: nat) [start..end]
      in if count > 0 then sum / Fin (real count) else Fin 0)"

section \<open>Private helpers of type-curve-matching.service.ts\<close>





section \<open>blasingame.model.ts and the public operations\<close>

datatype regime = InfiniteActing | Transition | BoundaryDominated | Depletion

datatype confidence = Low | Medium | High

record FlowRegimeSegment =
  regime :: regime
  startIndex :: int
  endIndex :: int
  diagnosticSlope :: number
  confidence :: confidence

text \<open>
  The body of the loop of \<^verbatim>\<open>identifyFlowRegimes\<close>, in two parts: the threshold chain that
  sets \<^verbatim>\<open>newRegime\<close>, and the step on the loop's variables
  \<open>(regimes, currentRegime, startIndex)\<close>.
\<close>

definition newRegime :: "number \<Rightarrow> regime" where
  "newRegime slope =
     (if slope > Fin (- 0.3) then InfiniteActing
      else if slope \<ge> Fin (- 0.7) then Transition
      else if slope \<ge> Fin (- 1.3) then BoundaryDominated
      else Depletion)"

definition regimeStep ::
  "number list \<Rightarrow> FlowRegimeSegment list \<times> regime \<times> int \<Rightarrow> nat \<Rightarrow>
   FlowRegimeSegment list \<times> regime \<times> int" where
  "regimeStep slopes state k =
     (let (regimes, currentRegime, startIndex) = state;
          i = int k;
          slope = js_get slopes i
        in if newRegime slope \<noteq> currentRegime
           then (regimes @ [\<lparr> regime = currentRegime,
                               startIndex = startIndex,
                               endIndex = i - 1,
                               diagnosticSlope = averageSlope slopes startIndex (i - 1),
                               confidence = Medium \<rparr>],
                 newRegime slope, i)
           else (regimes, currentRegime, startIndex))"

definition identifyFlowRegimes :: "number list \<Rightarrow> number list \<Rightarrow> FlowRegimeSegment list" where
  "identifyFlowRegimes materialBalanceTime qDdid =
     (let slopes = calculateLogLogSlope materialBalanceTime qDdid;
          (regimes, currentRegime, startIndex) =
            foldl (regimeStep slopes) ([], InfiniteActing, 0) [1..<length slopes]
      in regimes @ [\<lparr> regime = currentRegime,
                            startIndex = startIndex,
                            endIndex = int (length slopes) - 1,
                            diagnosticSlope =
                              averageSlope slopes startIndex (int (length slopes) - 1),
                            confidence = Medium \<rparr>])"

record BlasingameInput =
  dates :: "number list"
  rates :: "number list"
  cumulativeProduction :: "number list"
  pressures :: "number list option"
  initialPressure :: number
  wellboreRadius :: number
  netPayThickness :: number
  porosity :: number
  totalCompressibility :: number
  viscosity :: number
  formationVolumeFactor :: number

record BlasingameOutput =
  teDimensionless :: "number list"
  materialBalanceTime :: "number list"
  qDd :: "number list"
  qDdi :: "number list"
  qDdid :: "number list"
  pressureDrops :: "number list"
  times :: "number list"
  rates :: "number list"

text \<open>
  The services contain no \<^verbatim>\<open>throw\<close> and no validation. A public operation returns
  \<open>Inr\<close> of its result; \<open>Inl\<close> is the error it would raise.
\<close>

datatype error = DataShapeError

definition calculate :: "BlasingameInput \<Rightarrow> error + BlasingameOutput" where
  "calculate input =
     (let days = datesToDays (dates input);
          materialBalanceTime =
            calculateMaterialBalanceTime (BlasingameInput.rates input) (cumulativeProduction input);
          pressureDrops =
            calculatePressureDrops (pressures input) (initialPressure input) (length days);
          qDd = calculateNormalizedRate (BlasingameInput.rates input) pressureDrops;
          qDdi = calculateRateIntegral materialBalanceTime qDd;
          qDdid = calculateRateIntegralDerivative materialBalanceTime qDdi;
          (c_materialBalanceTime, c_qDd, c_qDdi, c_qDdid) =
            cleanData (materialBalanceTime, qDd, qDdi, qDdid)
      in Inr \<lparr> teDimensionless = [],
                   materialBalanceTime = c_materialBalanceTime,
                   qDd = c_qDd,
                   qDdi = c_qDdi,
                   qDdid = c_qDdid,
                   pressureDrops = pressureDrops,
                   times = days,
                   rates = BlasingameInput.rates input \<rparr>)"

section \<open>type-curve-matching.service.ts: the public operations\<close>


record TheoreticalCurves =
  teDimensionless :: "number list"
  qDd :: "number list"
  qDdi :: "number list"
  qDdid :: "number list"

record MatchQuality =
  rSquared :: number
  rmse :: number
  mae :: number


text \<open>
  The locals of \<^verbatim>\<open>calculateMatchQuality\<close>: \<open>validPairs\<close> (a pair \<^verbatim>\<open>{c, t}\<close> is \<open>(c, t)\<close>),
  \<open>meanCalculated\<close>, and the three sums \<open>(ssRes, ssTot, sumAbsError)\<close> of the
  \<^verbatim>\<open>forEach\<close> loop.
\<close>

definition validPairs :: "number list \<Rightarrow> number list \<Rightarrow> (number \<times> number) list" where
  "validPairs calculated theoretical =
     filter (\<lambda>(c, t). isFinite c \<and> isFinite t \<and> c > Fin 0 \<and> t > Fin 0)
       (map_index (\<lambda>c i. (c, js_get theoretical i)) calculated)"

definition meanCalculated :: "(number \<times> number) list \<Rightarrow> number" where
  "meanCalculated pairs =
     foldl (\<lambda>sum (c, t). sum + c) (Fin 0) pairs / Fin (real (length pairs))"

definition sumsOfSquares :: "(number \<times> number) list \<Rightarrow> number \<times> number \<times> number" where
  "sumsOfSquares pairs =
     foldl (\<lambda>(ssRes, ssTot, sumAbsError) (c, t).
        let residual = c - t;
            y = c - meanCalculated pairs
        in (ssRes + residual * residual, ssTot + y * y, sumAbsError + Math_abs residual))
       (Fin 0, Fin 0, Fin 0) pairs"

definition calculateMatchQuality :: "number list \<Rightarrow> number list \<Rightarrow> MatchQuality" where
  "calculateMatchQuality calculated theoretical =
     (if length calculated = 0 \<or> length theoretical = 0
      then \<lparr> rSquared = Fin 0, rmse = Fin 0, mae = Fin 0 \<rparr>
      else let pairs = validPairs calculated theoretical
           in if length pairs = 0
              then \<lparr> rSquared = Fin 0, rmse = Fin 0, mae = Fin 0 \<rparr>
              else
                let (ssRes, ssTot, sumAbsError) = sumsOfSquares pairs;
                    rSquared = (if ssTot > Fin 0 then Fin 1 - ssRes / ssTot else Fin 0);
                    rmse = Math_sqrt (ssRes / Fin (real (length pairs)));
                    mae = sumAbsError / Fin (real (length pairs))
                in \<lparr> rSquared = Math_max (Fin 0) (Math_min (Fin 1) rSquared),
                     rmse = rmse,
                     mae = mae \<rparr>)"

section \<open>Predicates of the specification\<close>

text \<open>Index \<open>i\<close> lies in the range \<open>[startIndex, endIndex]\<close> of a segment.\<close>

definition inSegment :: "FlowRegimeSegment \<Rightarrow> int \<Rightarrow> bool" where
  "inSegment s i \<longleftrightarrow> startIndex s \<le> i \<and> i \<le> endIndex s"

text \<open>
  The segments, in list order, tile the index range \<open>[a, b]\<close>: the first starts at \<open>a\<close>,
  each is non-empty, each next one starts right after the previous one ends, and the
  last ends at \<open>b\<close>.
\<close>

fun contiguous :: "int \<Rightarrow> FlowRegimeSegment list \<Rightarrow> int \<Rightarrow> bool" where
  "contiguous a [] b \<longleftrightarrow> a = b + 1"
| "contiguous a (s # ss) b \<longleftrightarrow>
     startIndex s = a \<and> a \<le> endIndex s \<and> contiguous (endIndex s + 1) ss b"

text \<open>
  The regime the loop of \<^verbatim>\<open>identifyFlowRegimes\<close> gives to index \<open>j\<close>, and the loop's
  invariant before iteration \<open>k\<close>.
\<close>

definition pointRegime :: "number list \<Rightarrow> int \<Rightarrow> regime" where
  "pointRegime slopes j = (if j = 0 then InfiniteActing else newRegime (js_get slopes j))"

definition loop_inv ::
  "number list \<Rightarrow> nat \<Rightarrow> FlowRegimeSegment list \<times> regime \<times> int \<Rightarrow> bool" where
  "loop_inv slopes k state \<longleftrightarrow>
     (case state of (regs, cur, st) \<Rightarrow>
        contiguous 0 regs (st - 1) \<and> 0 \<le> st \<and> st < int k \<and>
        (\<forall>j. st \<le> j \<and> j < int k \<longrightarrow> pointRegime slopes j = cur) \<and>
        (\<forall>s\<in>set regs. \<forall>j. inSegment s j \<longrightarrow> regime s = pointRegime slopes j))"

section \<open>Numbers and arrays: basic facts\<close>

lemma fin_small: "\<bar>r\<bar> < 2 ^ 1000 \<Longrightarrow> fin r = Fin r"
  by (auto simp: fin_def overflow_threshold_def)

lemma map_index_conv: "map_index f xs = map (\<lambda>i. f (xs ! i) (int i)) [0..<length xs]"
  by (rule nth_equalityI) (simp_all add: map_index_def nth_enumerate_eq)

lemma js_get_nth: "i < length xs \<Longrightarrow> js_get xs (int i) = xs ! i"
  by (simp add: js_get_def)

lemma length_js_set:
  "length (js_set xs i v) = (if i < 0 then length xs else max (length xs) (nat i + 1))"
  by (auto simp: js_set_def)

lemma length_foldl_js_set:
  "(\<And>k. k \<in> set ks \<Longrightarrow> k < length s) \<Longrightarrow>
   length (foldl (\<lambda>a k. js_set a (int k) (g a k)) s ks) = length s"
proof (induction ks arbitrary: s)
  case Nil
  show ?case by simp
next
  case (Cons k ks)
  have l: "length (js_set s (int k) (g s k)) = length s"
    using Cons.prems[of k] by (simp add: length_js_set)
  have "length (foldl (\<lambda>a k. js_set a (int k) (g a k)) (js_set s (int k) (g s k)) ks) =
        length (js_set s (int k) (g s k))"
    by (rule Cons.IH) (simp add: l Cons.prems)
  then show ?case by (simp add: l)
qed

lemma length_datesToDays: "length (datesToDays ds) = length ds"
  by (simp add: datesToDays_def Let_def)

section \<open>The Blasingame transform\<close>

lemma calculate_Inr: "\<exists>out. calculate inp = Inr out"
  by (simp add: calculate_def Let_def split: prod.splits)

lemma calculate_pressureDrops:
  "calculate inp = Inr out \<Longrightarrow>
   pressureDrops out =
     calculatePressureDrops (pressures inp) (initialPressure inp) (length (dates inp))"
  by (auto simp: calculate_def Let_def length_datesToDays split: prod.splits)

text \<open>
  C1. With a pressure series as long as the production series, \<^verbatim>\<open>calculate\<close> should give
  \<open>pressureDrops[i] = max(initialPressure - pressure[i], 100)\<close>, so no pressure drop below
  100. The code keeps every positive difference: with \<open>initialPressure = 5000\<close> and one
  measured pressure of 4950 the pressure drop is 50.
\<close>

theorem C1_pressure_drop_below_floor:
  "\<exists>out. calculate \<lparr> dates = [Fin 0], rates = [Fin 100], cumulativeProduction = [Fin 100],
       pressures = Some [Fin 4950], initialPressure = Fin 5000, wellboreRadius = Fin 0.3,
       netPayThickness = Fin 100, porosity = Fin 0.1, totalCompressibility = Fin 0.00001,
       viscosity = Fin 0.5, formationVolumeFactor = Fin 1.2 \<rparr> = Inr out
     \<and> pressureDrops out = [Fin 50] \<and> Fin 50 < Fin 100"
proof -
  let ?inp = "\<lparr> dates = [Fin 0], rates = [Fin 100], cumulativeProduction = [Fin 100],
       pressures = Some [Fin 4950], initialPressure = Fin 5000, wellboreRadius = Fin 0.3,
       netPayThickness = Fin 100, porosity = Fin 0.1, totalCompressibility = Fin 0.00001,
       viscosity = Fin 0.5, formationVolumeFactor = Fin 1.2 \<rparr>"
  obtain out where o: "calculate ?inp = Inr out"
    using calculate_Inr by blast
  have "pressureDrops out = [Fin 50]"
    using calculate_pressureDrops [OF o]
    by (simp add: calculatePressureDrops_def minus_number_def fin_small)
  with o show ?thesis by simp
qed

lemma mbt_loop:
  "k \<le> length rs \<Longrightarrow>
   length (foldl (\<lambda>te k.
        let i = int k
        in if js_get rs i > Fin 0
           then js_set te i (js_get cs i / js_get rs i)
           else js_set te i (if i > 0 then js_get te (i - 1) else Fin 0.001))
       (new_Array (length rs)) [0..<k]) = length rs \<and>
   (\<forall>i<k. foldl (\<lambda>te k.
        let i = int k
        in if js_get rs i > Fin 0
           then js_set te i (js_get cs i / js_get rs i)
           else js_set te i (if i > 0 then js_get te (i - 1) else Fin 0.001))
       (new_Array (length rs)) [0..<k] ! i =
      (if rs ! i > Fin 0 then js_get cs (int i) / rs ! i
       else if i > 0 then foldl (\<lambda>te k.
        let i = int k
        in if js_get rs i > Fin 0
           then js_set te i (js_get cs i / js_get rs i)
           else js_set te i (if i > 0 then js_get te (i - 1) else Fin 0.001))
       (new_Array (length rs)) [0..<k] ! (i - 1) else Fin 0.001))"
  (is "_ \<Longrightarrow> length (?F k) = _ \<and> (\<forall>i<k. ?F k ! i = ?V (?F k) i)")
proof (induction k)
  case 0
  show ?case by (simp add: new_Array_def)
next
  case (Suc k)
  then have len: "length (?F k) = length rs"
    and ih: "\<And>i. i < k \<Longrightarrow> ?F k ! i = ?V (?F k) i"
    and k: "k < length rs" by auto
  let ?v = "if js_get rs (int k) > Fin 0 then js_get cs (int k) / js_get rs (int k)
            else if k > 0 then js_get (?F k) (int k - 1) else Fin 0.001"
  have step: "?F (Suc k) = (?F k)[k := ?v]"
    using k len by (simp add: Let_def js_set_def)
  have "length (?F (Suc k)) = length rs"
    using len step by simp
  moreover have "?F (Suc k) ! i = ?V (?F (Suc k)) i" if "i < Suc k" for i
  proof (cases "i = k")
    case True
    have "k > 0 \<Longrightarrow> js_get (?F k) (int k - 1) = ?F k ! (k - 1)"
      using k len by (simp add: js_get_def nat_diff_distrib)
    then show ?thesis
      using True k len unfolding step by (simp add: js_get_nth)
  next
    case False
    with that have "i < k" by simp
    then show ?thesis
      using ih[of i] k len unfolding step by simp
  qed
  ultimately show ?case by blast
qed

text \<open>
  C3. Material-balance time, before cleaning: \<open>te[i] = cumulative[i] / rate[i]\<close> whenever
  \<open>rate[i] > 0\<close>; when \<open>rate[i] = 0\<close>, \<open>te[i] = te[i-1]\<close> for \<open>i > 0\<close> and \<open>te[0] = 0.001\<close>.
  The array has one entry for each rate.
\<close>

theorem C3_material_balance_time:
  assumes "i < length (BlasingameInput.rates inp)"
  shows "let rs = BlasingameInput.rates inp;
             cs = cumulativeProduction inp;
             te = calculateMaterialBalanceTime rs cs
         in length te = length rs \<and>
            (rs ! i > Fin 0 \<longrightarrow> te ! i = js_get cs (int i) / rs ! i) \<and>
            (rs ! i = Fin 0 \<and> 0 < i \<longrightarrow> te ! i = te ! (i - 1)) \<and>
            (rs ! i = Fin 0 \<and> i = 0 \<longrightarrow> te ! i = Fin 0.001)"
  using mbt_loop [of "length (BlasingameInput.rates inp)" "BlasingameInput.rates inp"
                    "cumulativeProduction inp"] assms
  by (auto simp: calculateMaterialBalanceTime_def Let_def)

theorem C3_material_balance_time_witness:
  "[Fin 0, Fin 100, Fin 0] ! 0 = Fin 0 \<and>
   calculateMaterialBalanceTime [Fin 0, Fin 100, Fin 0] [Fin 0, Fin 100, Fin 100] ! 0 =
     Fin 0.001 \<and>
   [Fin 0, Fin 100, Fin 0] ! 1 > Fin 0 \<and>
   calculateMaterialBalanceTime [Fin 0, Fin 100, Fin 0] [Fin 0, Fin 100, Fin 100] ! 1 =
     Fin 100 / Fin 100 \<and>
   [Fin 0, Fin 100, Fin 0] ! 2 = Fin 0 \<and>
   calculateMaterialBalanceTime [Fin 0, Fin 100, Fin 0] [Fin 0, Fin 100, Fin 100] ! 2 =
   calculateMaterialBalanceTime [Fin 0, Fin 100, Fin 0] [Fin 0, Fin 100, Fin 100] ! 1"
proof -
  let ?inp = "\<lparr> dates = [Fin 0, Fin 86400000, Fin 172800000],
       rates = [Fin 0, Fin 100, Fin 0], cumulativeProduction = [Fin 0, Fin 100, Fin 100],
       pressures = None, initialPressure = Fin 5000, wellboreRadius = Fin 0.3,
       netPayThickness = Fin 100, porosity = Fin 0.1, totalCompressibility = Fin 0.00001,
       viscosity = Fin 0.5, formationVolumeFactor = Fin 1.2 \<rparr>"
  show ?thesis
    using C3_material_balance_time [of 0 ?inp] C3_material_balance_time [of 1 ?inp]
      C3_material_balance_time [of 2 ?inp]
    by (simp add: Let_def js_get_def fin_small)
qed

section \<open>Flow-regime segmentation\<close>

lemma length_calculateLogLogSlope:
  "length (calculateLogLogSlope x y) = (if x = [] then 1 else length x)"
proof -
  let ?s0 = "js_set (new_Array (length x)) 0
     ((js_get (map Math_log10 y) 1 - js_get (map Math_log10 y) 0) /
      (js_get (map Math_log10 x) 1 - js_get (map Math_log10 x) 0))"
  have l0: "length ?s0 = (if x = [] then 1 else length x)"
    by (cases x) (auto simp: length_js_set new_Array_def)
  have "length (foldl (\<lambda>slopes k. js_set slopes (int k)
            ((js_get (map Math_log10 y) (int k + 1) - js_get (map Math_log10 y) (int k - 1)) /
             (js_get (map Math_log10 x) (int k + 1) - js_get (map Math_log10 x) (int k - 1))))
          ?s0 [1..<length x - 1]) = length ?s0"
    by (rule length_foldl_js_set) (auto simp: l0)
  then show ?thesis
    unfolding calculateLogLogSlope_def Let_def length_js_set
    by (cases x) (auto simp: l0 new_Array_def)
qed

lemma contiguous_snoc:
  "contiguous a ss b \<Longrightarrow> startIndex s = b + 1 \<Longrightarrow> b + 1 \<le> endIndex s \<Longrightarrow>
   contiguous a (ss @ [s]) (endIndex s)"
  by (induction ss arbitrary: a) auto

lemma contiguous_unique:
  "contiguous a ss b \<Longrightarrow> a \<le> i \<Longrightarrow> i \<le> b \<Longrightarrow> \<exists>!k. k < length ss \<and> inSegment (ss ! k) i"
proof (induction ss arbitrary: a)
  case Nil
  then show ?case by simp
next
  case (Cons s ss)
  show ?case
  proof (cases "i \<le> endIndex s")
    case True
    have none: "\<not> inSegment (ss ! k) i" if "k < length ss" for k
    proof -
      have "\<And>a. contiguous a ss b \<Longrightarrow> k < length ss \<Longrightarrow> a \<le> startIndex (ss ! k)"
      proof (induction ss arbitrary: k)
        case Nil then show ?case by simp
      next
        case (Cons t ts)
        then show ?case by (cases k) (auto, force)
      qed
      from this[of "endIndex s + 1"] Cons.prems that True show ?thesis
        by (auto simp: inSegment_def)
    qed
    have "inSegment ((s # ss) ! 0) i" using Cons.prems True by (simp add: inSegment_def)
    moreover have "k = 0" if "k < length (s # ss)" "inSegment ((s # ss) ! k) i" for k
      using that none by (cases k) auto
    ultimately show ?thesis by (intro ex1I[of _ 0]) auto
  next
    case False
    then have "\<exists>!k. k < length ss \<and> inSegment (ss ! k) i"
      using Cons.IH[of "endIndex s + 1"] Cons.prems by simp
    then obtain k where k: "k < length ss" "inSegment (ss ! k) i"
      and uniq: "\<And>j. j < length ss \<Longrightarrow> inSegment (ss ! j) i \<Longrightarrow> j = k" by blast
    have "Suc k < length (s # ss) \<and> inSegment ((s # ss) ! Suc k) i" using k by simp
    moreover have "j = Suc k" if "j < length (s # ss)" "inSegment ((s # ss) ! j) i" for j
    proof (cases j)
      case 0
      then show ?thesis using that False by (simp add: inSegment_def)
    next
      case (Suc j')
      then show ?thesis using that uniq[of j'] by simp
    qed
    ultimately show ?thesis by (intro ex1I[of _ "Suc k"]) auto
  qed
qed

lemma loop_inv_step:
  assumes "loop_inv slopes k state" "1 \<le> k"
  shows "loop_inv slopes (Suc k) (regimeStep slopes state k)"
proof -
  obtain regs cur st where s: "state = (regs, cur, st)" by (cases state) auto
  from assms s have c: "contiguous 0 regs (st - 1)" and st: "0 \<le> st" "st < int k"
    and lab: "\<And>j. st \<le> j \<Longrightarrow> j < int k \<Longrightarrow> pointRegime slopes j = cur"
    and seg: "\<And>s j. s \<in> set regs \<Longrightarrow> inSegment s j \<Longrightarrow> regime s = pointRegime slopes j"
    by (auto simp: loop_inv_def)
  have lk: "pointRegime slopes (int k) = newRegime (js_get slopes (int k))"
    using assms(2) by (simp add: pointRegime_def)
  show ?thesis
  proof (cases "newRegime (js_get slopes (int k)) = cur")
    case True
    then have "regimeStep slopes state k = (regs, cur, st)"
      by (simp add: regimeStep_def s Let_def)
    moreover have "pointRegime slopes j = cur" if "st \<le> j" "j < int (Suc k)" for j
      using that lab[of j] lk True by (cases "j = int k") auto
    ultimately show ?thesis using c st seg by (auto simp: loop_inv_def)
  next
    case False
    let ?seg = "\<lparr> regime = cur, startIndex = st, endIndex = int k - 1,
                  diagnosticSlope = averageSlope slopes st (int k - 1), confidence = Medium \<rparr>"
    from False have step: "regimeStep slopes state k =
        (regs @ [?seg], newRegime (js_get slopes (int k)), int k)"
      by (simp add: regimeStep_def s Let_def)
    have "contiguous 0 (regs @ [?seg]) (endIndex ?seg)"
      using c st by (intro contiguous_snoc) auto
    then have c': "contiguous 0 (regs @ [?seg]) (int k - 1)" by simp
    have seg': "regime s = pointRegime slopes j" if "s \<in> set (regs @ [?seg])" "inSegment s j" for s j
      using that seg lab by (auto simp: inSegment_def)
    have "pointRegime slopes j = newRegime (js_get slopes (int k))" if "int k \<le> j" "j < int (Suc k)" for j
      using that lk by (cases "j = int k") auto
    then show ?thesis unfolding step loop_inv_def using c' st seg' by auto
  qed
qed

lemma loop_inv_fold:
  "1 \<le> k \<Longrightarrow> loop_inv slopes k (foldl (regimeStep slopes) ([], InfiniteActing, 0) [1..<k])"
proof (induction k)
  case 0
  then show ?case by simp
next
  case (Suc k)
  show ?case
  proof (cases "k = 0")
    case True
    then show ?thesis by (simp add: loop_inv_def pointRegime_def)
  next
    case False
    then have "loop_inv slopes k (foldl (regimeStep slopes) ([], InfiniteActing, 0) [1..<k])"
      using Suc.IH by simp
    then show ?thesis using False loop_inv_step[of slopes k] by simp
  qed
qed

lemma identifyFlowRegimes_segments:
  fixes x y
  defines "slopes \<equiv> calculateLogLogSlope x y"
  defines "segs \<equiv> identifyFlowRegimes x y"
  shows "segs \<noteq> []"
    and "contiguous 0 segs (int (length slopes) - 1)"
    and "\<And>s j. s \<in> set segs \<Longrightarrow> inSegment s j \<Longrightarrow> regime s = pointRegime slopes j"
proof -
  obtain regs cur st where
    f: "foldl (regimeStep slopes) ([], InfiniteActing, 0) [1..<length slopes] = (regs, cur, st)"
    by (metis prod_cases3)
  let ?last = "\<lparr> regime = cur, startIndex = st, endIndex = int (length slopes) - 1,
     diagnosticSlope = averageSlope slopes st (int (length slopes) - 1), confidence = Medium \<rparr>"
  have segs: "segs = regs @ [?last]"
    using f by (simp add: segs_def identifyFlowRegimes_def slopes_def[symmetric] Let_def)
  have "1 \<le> length slopes"
    by (cases x) (simp_all add: slopes_def length_calculateLogLogSlope)
  from loop_inv_fold[OF this, of slopes] f
  have c: "contiguous 0 regs (st - 1)" and st: "0 \<le> st" "st < int (length slopes)"
    and lab: "\<And>j. st \<le> j \<Longrightarrow> j < int (length slopes) \<Longrightarrow> pointRegime slopes j = cur"
    and seg: "\<And>s j. s \<in> set regs \<Longrightarrow> inSegment s j \<Longrightarrow> regime s = pointRegime slopes j"
    by (auto simp: loop_inv_def)
  show "segs \<noteq> []" by (simp add: segs)
  have "contiguous 0 (regs @ [?last]) (endIndex ?last)"
    using c st by (intro contiguous_snoc) auto
  then show "contiguous 0 segs (int (length slopes) - 1)" by (simp add: segs)
  show "regime s = pointRegime slopes j" if "s \<in> set segs" "inSegment s j" for s j
    using that seg lab by (auto simp: segs inSegment_def)
qed

lemma newRegime_thresholds:
  "(slope > Fin (- 0.3) \<longrightarrow> newRegime slope = InfiniteActing) \<and>
   (Fin (- 0.7) \<le> slope \<and> slope \<le> Fin (- 0.3) \<longrightarrow> newRegime slope = Transition) \<and>
   (Fin (- 1.3) \<le> slope \<and> slope < Fin (- 0.7) \<longrightarrow> newRegime slope = BoundaryDominated) \<and>
   (slope < Fin (- 1.3) \<longrightarrow> newRegime slope = Depletion)"
  by (cases slope) (auto simp: newRegime_def)

lemma log10_100: "log 10 100 = (2::real)"
proof -
  have "log 10 ((10::real) ^ 2) = 2"
    by (subst log_pow_cancel) simp_all
  then show ?thesis by simp
qed

lemma slopes_example:
  "calculateLogLogSlope [Fin 1, Fin 10, Fin 100] [Fin 100, Fin 10, Fin 1] =
   [Fin (- 1), Fin (- 1), Fin (- 1)]"
  by (simp add: calculateLogLogSlope_def new_Array_def js_set_def js_get_def minus_number_def
      log10_100 fin_small Let_def)

lemma segments_example:
  "identifyFlowRegimes [Fin 1, Fin 10, Fin 100] [Fin 100, Fin 10, Fin 1] =
   [\<lparr> regime = InfiniteActing, startIndex = 0, endIndex = 0,
       diagnosticSlope = Fin (- 1), confidence = Medium \<rparr>,
    \<lparr> regime = BoundaryDominated, startIndex = 1, endIndex = 2,
       diagnosticSlope = Fin (- 1), confidence = Medium \<rparr>]"
  by (simp add: identifyFlowRegimes_def slopes_example regimeStep_def newRegime_def js_get_def
      averageSlope_def upto_rec1 fin_small Let_def)

lemma identifyFlowRegimes_Nil:
  "identifyFlowRegimes [] [] =
   [\<lparr> regime = InfiniteActing, startIndex = 0, endIndex = 0,
       diagnosticSlope = Fin 0, confidence = Medium \<rparr>]"
proof -
  have "calculateLogLogSlope [] [] = [NaN]"
    by (simp add: calculateLogLogSlope_def new_Array_def js_set_def js_get_def minus_number_def
        Let_def)
  then show ?thesis
    by (simp add: identifyFlowRegimes_def averageSlope_def js_get_def upto_rec1)
qed

text \<open>
  C5, as the code has it. The loop starts at index 1 with \<open>currentRegime\<close> preset to
  infinite-acting, so the slope at index 0 is never classified: the segment that contains
  index 0 is always infinite-acting. For every index \<open>i \<ge> 1\<close> of the series the segment that
  contains \<open>i\<close> carries the regime the thresholds give to the slope at \<open>i\<close>: above \<open>-0.3\<close>
  infinite-acting, in \<open>[-0.7, -0.3]\<close> transition, in \<open>[-1.3, -0.7)\<close> boundary-dominated,
  below \<open>-1.3\<close> depletion.
\<close>

theorem C5_segment_regime_from_point_slope:
  assumes "i < length x" and "s \<in> set (identifyFlowRegimes x y)" and "inSegment s (int i)"
  shows "if i = 0 then regime s = InfiniteActing
         else let slope = calculateLogLogSlope x y ! i
              in (slope > Fin (- 0.3) \<longrightarrow> regime s = InfiniteActing) \<and>
                 (Fin (- 0.7) \<le> slope \<and> slope \<le> Fin (- 0.3) \<longrightarrow> regime s = Transition) \<and>
                 (Fin (- 1.3) \<le> slope \<and> slope < Fin (- 0.7) \<longrightarrow>
                    regime s = BoundaryDominated) \<and>
                 (slope < Fin (- 1.3) \<longrightarrow> regime s = Depletion)"
proof -
  have r: "regime s = pointRegime (calculateLogLogSlope x y) (int i)"
    using identifyFlowRegimes_segments(3) assms(2,3) by blast
  have "i < length (calculateLogLogSlope x y)"
    using assms(1) by (auto simp: length_calculateLogLogSlope)
  then have "js_get (calculateLogLogSlope x y) (int i) = calculateLogLogSlope x y ! i"
    by (rule js_get_nth)
  then show ?thesis
    using r newRegime_thresholds [of "calculateLogLogSlope x y ! i"]
    by (simp add: pointRegime_def Let_def)
qed

theorem C5_segment_regime_witness:
  "(1::nat) < length [Fin 1, Fin 10, Fin 100] \<and>
   identifyFlowRegimes [Fin 1, Fin 10, Fin 100] [Fin 100, Fin 10, Fin 1] ! 1
     \<in> set (identifyFlowRegimes [Fin 1, Fin 10, Fin 100] [Fin 100, Fin 10, Fin 1]) \<and>
   inSegment (identifyFlowRegimes [Fin 1, Fin 10, Fin 100] [Fin 100, Fin 10, Fin 1] ! 1) 1 \<and>
   Fin (- 1.3) \<le> calculateLogLogSlope [Fin 1, Fin 10, Fin 100] [Fin 100, Fin 10, Fin 1] ! 1 \<and>
   calculateLogLogSlope [Fin 1, Fin 10, Fin 100] [Fin 100, Fin 10, Fin 1] ! 1 < Fin (- 0.7) \<and>
   regime (identifyFlowRegimes [Fin 1, Fin 10, Fin 100] [Fin 100, Fin 10, Fin 1] ! 1) =
     BoundaryDominated"
proof -
  let ?x = "[Fin 1, Fin 10, Fin 100]" and ?y = "[Fin 100, Fin 10, Fin 1]"
  have h1: "(1::nat) < length ?x" by simp
  have h2: "identifyFlowRegimes ?x ?y ! 1 \<in> set (identifyFlowRegimes ?x ?y)"
    by (simp add: segments_example)
  have h3: "inSegment (identifyFlowRegimes ?x ?y ! 1) (int 1)"
    by (simp add: segments_example inSegment_def)
  have h4: "Fin (- 1.3) \<le> calculateLogLogSlope ?x ?y ! 1 \<and>
            calculateLogLogSlope ?x ?y ! 1 < Fin (- 0.7)"
    by (simp add: slopes_example)
  from C5_segment_regime_from_point_slope [OF h1 h2 h3] h4
  have "regime (identifyFlowRegimes ?x ?y ! 1) = BoundaryDominated"
    by (simp add: Let_def)
  with h1 h2 h3 h4 show ?thesis by simp
qed

text \<open>
  The claim C5 as stated fails at index 0: for \<open>x = [1, 10, 100]\<close>, \<open>y = [100, 10, 1]\<close> the
  slope at index 0 is \<open>-1\<close>, in \<open>[-1.3, -0.7)\<close>, and the segment \<open>[0, 0]\<close> that contains
  index 0 is infinite-acting, not boundary-dominated.
\<close>

theorem C5_index_zero_counterexample:
  "calculateLogLogSlope [Fin 1, Fin 10, Fin 100] [Fin 100, Fin 10, Fin 1] ! 0 = Fin (- 1) \<and>
   Fin (- 1.3) \<le> Fin (- 1) \<and> Fin (- 1) < Fin (- 0.7) \<and>
   inSegment (identifyFlowRegimes [Fin 1, Fin 10, Fin 100] [Fin 100, Fin 10, Fin 1] ! 0) 0 \<and>
   regime (identifyFlowRegimes [Fin 1, Fin 10, Fin 100] [Fin 100, Fin 10, Fin 1] ! 0) =
     InfiniteActing \<and>
   regime (identifyFlowRegimes [Fin 1, Fin 10, Fin 100] [Fin 100, Fin 10, Fin 1] ! 0) \<noteq>
     BoundaryDominated"
  by (simp add: slopes_example segments_example inSegment_def)

text \<open>
  C6. For a non-empty series of length \<open>M\<close>, \<^verbatim>\<open>identifyFlowRegimes\<close> returns a non-empty list
  of segments that, in list order, tile \<open>[0, M - 1]\<close>: contiguous, in time order, not
  overlapping; every index of the series lies in exactly one segment.
\<close>

theorem C6_segments_tile_the_series:
  assumes "x \<noteq> []"
  shows "identifyFlowRegimes x y \<noteq> [] \<and>
         contiguous 0 (identifyFlowRegimes x y) (int (length x) - 1) \<and>
         (\<forall>i. 0 \<le> i \<and> i < int (length x) \<longrightarrow>
              (\<exists>!k. k < length (identifyFlowRegimes x y) \<and>
                    inSegment (identifyFlowRegimes x y ! k) i))"
proof -
  have l: "length (calculateLogLogSlope x y) = length x"
    using assms by (simp add: length_calculateLogLogSlope)
  have c: "contiguous 0 (identifyFlowRegimes x y) (int (length x) - 1)"
    using identifyFlowRegimes_segments(2) [of x y] by (simp add: l)
  have "\<exists>!k. k < length (identifyFlowRegimes x y) \<and> inSegment (identifyFlowRegimes x y ! k) i"
    if "0 \<le> i" "i < int (length x)" for i
    using contiguous_unique [OF c, of i] that by simp
  with c identifyFlowRegimes_segments(1) [of x y] show ?thesis by blast
qed

theorem C6_segments_tile_witness:
  "[Fin 1, Fin 10, Fin 100] \<noteq> [] \<and>
   identifyFlowRegimes [Fin 1, Fin 10, Fin 100] [Fin 100, Fin 10, Fin 1] \<noteq> [] \<and>
   contiguous 0 (identifyFlowRegimes [Fin 1, Fin 10, Fin 100] [Fin 100, Fin 10, Fin 1]) 2 \<and>
   (\<exists>!k. k < length (identifyFlowRegimes [Fin 1, Fin 10, Fin 100] [Fin 100, Fin 10, Fin 1]) \<and>
         inSegment (identifyFlowRegimes [Fin 1, Fin 10, Fin 100] [Fin 100, Fin 10, Fin 1] ! k) 2)"
  using C6_segments_tile_the_series [of "[Fin 1, Fin 10, Fin 100]" "[Fin 100, Fin 10, Fin 1]"]
  by simp

text \<open>
  C9, as the code has it. For two empty arrays \<^verbatim>\<open>calculateLogLogSlope\<close> writes \<open>slopes[0]\<close>
  into its empty array, which becomes \<open>[NaN]\<close> of length 1, so \<^verbatim>\<open>identifyFlowRegimes\<close>
  returns exactly one segment with \<open>startIndex\<close> 0 and \<open>endIndex\<close> 0 (not \<open>-1\<close>), regime
  infinite-acting, \<open>diagnosticSlope\<close> 0 and confidence medium.
\<close>

theorem C9_empty_input_single_segment:
  "identifyFlowRegimes [] [] =
   [\<lparr> regime = InfiniteActing, startIndex = 0, endIndex = 0,
       diagnosticSlope = Fin 0, confidence = Medium \<rparr>]"
  by (rule identifyFlowRegimes_Nil)

text \<open>The claim C9 as stated, with \<open>endIndex\<close> \<open>-1\<close>, fails.\<close>

theorem C9_end_index_counterexample:
  "identifyFlowRegimes [] [] \<noteq>
   [\<lparr> regime = InfiniteActing, startIndex = 0, endIndex = - 1,
       diagnosticSlope = Fin 0, confidence = Medium \<rparr>]"
  by (simp add: identifyFlowRegimes_Nil)

section \<open>Match quality\<close>


lemma fin_Fin: "- overflow_threshold < r \<Longrightarrow> r < overflow_threshold \<Longrightarrow> fin r = Fin r"
  by (simp add: fin_def)

lemma fin_PInf: "overflow_threshold \<le> r \<Longrightarrow> fin r = PInf"
  by (simp add: fin_def)

lemma validPairs_conv:
  "validPairs c t =
   filter (\<lambda>(a, b). isFinite a \<and> isFinite b \<and> a > Fin 0 \<and> b > Fin 0)
     (map (\<lambda>i. (c ! i, js_get t (int i))) [0..<length c])"
  by (simp add: validPairs_def map_index_conv)

text \<open>
  C10. When the calculated or the theoretical array is empty, or no index has both its
  calculated and its theoretical value finite and strictly positive,
  \<^verbatim>\<open>calculateMatchQuality\<close> returns exactly \<open>{rSquared: 0, rmse: 0, mae: 0}\<close>: three finite
  numbers, no \<open>NaN\<close>, no infinity, no exception.
\<close>

theorem C10_degenerate_match_quality:
  assumes "calculated = [] \<or> theoretical = [] \<or>
     (\<forall>i<length calculated.
        \<not> (isFinite (calculated ! i) \<and> isFinite (js_get theoretical (int i)) \<and>
           calculated ! i > Fin 0 \<and> js_get theoretical (int i) > Fin 0))"
  shows "calculateMatchQuality calculated theoretical =
         \<lparr> rSquared = Fin 0, rmse = Fin 0, mae = Fin 0 \<rparr>"
proof (cases "calculated = [] \<or> theoretical = []")
  case True
  then show ?thesis by (auto simp: calculateMatchQuality_def)
next
  case False
  with assms have "validPairs calculated theoretical = []"
    by (auto simp: validPairs_conv filter_empty_conv)
  then show ?thesis by (simp add: calculateMatchQuality_def Let_def)
qed

theorem C10_degenerate_match_quality_witness:
  "\<not> isFinite ([NaN, Fin 1, Fin 2] ! 0) \<and>
   \<not> js_get [Fin 1, Fin (- 1)] 1 > Fin 0 \<and>
   \<not> isFinite (js_get [Fin 1, Fin (- 1)] 2) \<and>
   calculateMatchQuality [NaN, Fin 1, Fin 2] [Fin 1, Fin (- 1)] =
     \<lparr> rSquared = Fin 0, rmse = Fin 0, mae = Fin 0 \<rparr>"
proof -
  have h: "\<forall>i<length [NaN, Fin 1, Fin 2].
        \<not> (isFinite ([NaN, Fin 1, Fin 2] ! i) \<and> isFinite (js_get [Fin 1, Fin (- 1)] (int i)) \<and>
           [NaN, Fin 1, Fin 2] ! i > Fin 0 \<and> js_get [Fin 1, Fin (- 1)] (int i) > Fin 0)"
    by (simp add: js_get_def less_Suc_eq nth_Cons')
  have "calculateMatchQuality [NaN, Fin 1, Fin 2] [Fin 1, Fin (- 1)] =
     \<lparr> rSquared = Fin 0, rmse = Fin 0, mae = Fin 0 \<rparr>"
    using C10_degenerate_match_quality [of "[NaN, Fin 1, Fin 2]" "[Fin 1, Fin (- 1)]"] h
    by blast
  then show ?thesis by (simp add: js_get_def)
qed











lemma rSquared_overflow:
  assumes "0 < b" "4 * b < overflow_threshold" "overflow_threshold \<le> b * b"
  shows "rSquared (calculateMatchQuality [Fin b, Fin (3 * b)] [Fin (3 * b), Fin b]) = NaN"
proof -
  have vp: "validPairs [Fin b, Fin (3 * b)] [Fin (3 * b), Fin b] =
            [(Fin b, Fin (3 * b)), (Fin (3 * b), Fin b)]"
    using assms(1) by (simp add: validPairs_conv js_get_def upt_rec)
  have f1: "fin b = Fin b" "fin (4 * b) = Fin (4 * b)" "fin (2 * b) = Fin (2 * b)"
    "fin (- (2 * b)) = Fin (- (2 * b))" "fin (- b) = Fin (- b)"
    using assms(1,2) by (auto intro!: fin_Fin)
  have "0 \<le> b * b" by simp
  then have "overflow_threshold \<le> 4 * (b * b)"
    using assms(3) by linarith
  then have f2: "fin (b * b) = PInf" "fin (4 * (b * b)) = PInf"
    using assms(3) by (auto intro!: fin_PInf)
  have m: "meanCalculated [(Fin b, Fin (3 * b)), (Fin (3 * b), Fin b)] = Fin (2 * b)"
    using assms(1) by (simp add: meanCalculated_def f1)
  have ab: "\<bar>2 * b\<bar> = 2 * b"
    using assms(1) by simp
  have s: "sumsOfSquares [(Fin b, Fin (3 * b)), (Fin (3 * b), Fin b)] = (PInf, PInf, Fin (4 * b))"
    by (simp add: sumsOfSquares_def m minus_number_def Let_def f1 f2 ab)
  show ?thesis
    by (simp add: calculateMatchQuality_def vp s Let_def minus_number_def)
qed

lemma clamp_range:
  "Math_max (Fin 0) (Math_min (Fin 1) z) = NaN \<and> z = NaN \<or>
   Fin 0 \<le> Math_max (Fin 0) (Math_min (Fin 1) z) \<and>
   Math_max (Fin 0) (Math_min (Fin 1) z) \<le> Fin 1"
  by (cases z) auto

text \<open>
  C8. The reported \<open>rSquared\<close> should lie in \<open>[0, 1]\<close> for every pair of input arrays. The
  clamp \<^verbatim>\<open>Math.max(0, Math.min(1, rSquared))\<close> lets \<open>NaN\<close> through: for
  \<open>calculated = [1e200, 3e200]\<close> and \<open>theoretical = [3e200, 1e200]\<close> both sums of squares
  overflow to \<open>Infinity\<close>, the raw value is \<open>1 - Infinity / Infinity = NaN\<close>, and the
  reported \<open>rSquared\<close> is \<open>NaN\<close>.
\<close>

theorem C8_rSquared_NaN_on_overflow:
  "rSquared (calculateMatchQuality [Fin (10 ^ 200), Fin (3 * 10 ^ 200)]
                                  [Fin (3 * 10 ^ 200), Fin (10 ^ 200)]) = NaN"
  by (rule rSquared_overflow) (simp_all add: overflow_threshold_def)

section \<open>No validation at the API boundary\<close>



section \<open>The cleaned arrays\<close>

lemma cleanData_parallel:
  assumes "cleanData (m, q, qi, qd) = (a, b, c, d)"
  shows "length b = length a \<and> length c = length a \<and> length d = length a \<and>
         (\<forall>i<length a.
            isFinite (a ! i) \<and> a ! i > Fin 0 \<and> isFinite (b ! i) \<and> b ! i > Fin 0 \<and>
            isFinite (c ! i) \<and> c ! i > Fin 0 \<and> isFinite (d ! i) \<and> d ! i > Fin 0)"
proof -
  let ?P = "\<lambda>i. isFinite (js_get m i) \<and> isFinite (js_get q i) \<and> isFinite (js_get qi i) \<and>
                isFinite (js_get qd i) \<and> js_get m i > Fin 0 \<and> js_get q i > Fin 0 \<and>
                js_get qi i > Fin 0 \<and> js_get qd i > Fin 0"
  let ?valid = "filter ?P (map int [0..<length m])"
  have abcd: "a = map (js_get m) ?valid" "b = map (js_get q) ?valid"
    "c = map (js_get qi) ?valid" "d = map (js_get qd) ?valid"
    using assms by (simp_all add: cleanData_def Let_def)
  have "?P (?valid ! i)" if "i < length ?valid" for i
  proof -
    have "?valid ! i \<in> set ?valid" using that by (rule nth_mem)
    then show ?thesis by simp
  qed
  then show ?thesis by (simp add: abcd)
qed

text \<open>
  C4. The four cleaned arrays returned by \<^verbatim>\<open>calculate\<close> (\<open>materialBalanceTime\<close>, \<open>qDd\<close>,
  \<open>qDdi\<close>, \<open>qDdid\<close>) have equal length, and at every index all four elements are finite
  and strictly greater than 0. This holds for every input, valid or not.
\<close>

theorem C4_cleaned_arrays_parallel:
  assumes "calculate inp = Inr out"
  shows "length (BlasingameOutput.qDd out) = length (materialBalanceTime out) \<and>
         length (BlasingameOutput.qDdi out) = length (materialBalanceTime out) \<and>
         length (BlasingameOutput.qDdid out) = length (materialBalanceTime out) \<and>
         (\<forall>i<length (materialBalanceTime out).
            isFinite (materialBalanceTime out ! i) \<and> materialBalanceTime out ! i > Fin 0 \<and>
            isFinite (BlasingameOutput.qDd out ! i) \<and> BlasingameOutput.qDd out ! i > Fin 0 \<and>
            isFinite (BlasingameOutput.qDdi out ! i) \<and> BlasingameOutput.qDdi out ! i > Fin 0 \<and>
            isFinite (BlasingameOutput.qDdid out ! i) \<and> BlasingameOutput.qDdid out ! i > Fin 0)"
proof -
  obtain m q qi qd a b c d where cd: "cleanData (m, q, qi, qd) = (a, b, c, d)"
    and out: "materialBalanceTime out = a" "BlasingameOutput.qDd out = b"
      "BlasingameOutput.qDdi out = c" "BlasingameOutput.qDdid out = d"
    using assms by (auto simp: calculate_def Let_def split: prod.splits)
  show ?thesis unfolding out by (rule cleanData_parallel [OF cd])
qed

text \<open>
  A worked input: four daily points, the rate halving after the first day, a constant
  flowing pressure 100 psi below the initial pressure. The first point is dropped
  (\<open>qDdi[0] = 0\<close>), the other three survive.
\<close>

lemma example_materialBalanceTime:
  "calculateMaterialBalanceTime [Fin 200, Fin 100, Fin 100, Fin 100]
     [Fin 200, Fin 300, Fin 400, Fin 500] =
   [Fin 1, Fin 3, Fin 4, Fin 5]"
  by (simp add: calculateMaterialBalanceTime_def new_Array_def js_get_def js_set_def upt_rec
      fin_small Let_def)

lemma example_pressureDrops:
  "calculatePressureDrops (Some [Fin 4900, Fin 4900, Fin 4900, Fin 4900]) (Fin 5000)
     (Suc (Suc (Suc (Suc 0)))) =
   [Fin 100, Fin 100, Fin 100, Fin 100]"
  by (simp add: calculatePressureDrops_def minus_number_def fin_small)

lemma example_normalizedRate:
  "calculateNormalizedRate [Fin 200, Fin 100, Fin 100, Fin 100]
     [Fin 100, Fin 100, Fin 100, Fin 100] =
   [Fin 2, Fin 1, Fin 1, Fin 1]"
  by (simp add: calculateNormalizedRate_def map_index_conv js_get_def upt_rec fin_small)

lemma example_trapezoid:
  "trapezoidalIntegrate [Fin 1, Fin 3, Fin 4, Fin 5] [Fin 2, Fin 1, Fin 1, Fin 1] =
   [Fin 0, Fin 3, Fin 4, Fin 5]"
  by (simp add: trapezoidalIntegrate_def js_get_def js_set_def upt_rec fin_small
      minus_number_def Let_def)

lemma example_rateIntegral:
  "calculateRateIntegral [Fin 1, Fin 3, Fin 4, Fin 5] [Fin 2, Fin 1, Fin 1, Fin 1] =
   [Fin 0, Fin 1, Fin 1, Fin 1]"
  by (simp add: calculateRateIntegral_def example_trapezoid map_index_conv js_get_def upt_rec
      fin_small Let_def)

lemma example_movingAverage:
  "movingAverage [Fin 0, Fin 1, Fin 1, Fin 1] 5 = [Fin (2 / 3), Fin (3 / 4), Fin (3 / 4), Fin 1]"
  by (simp add: movingAverage_def new_Array_def js_get_def js_set_def upt_rec upto_rec1
      fin_small Let_def)

lemma ln_lower_bound: "0 < x \<Longrightarrow> 1 - 1 / x \<le> ln (x::real)"
proof -
  assume x: "0 < x"
  then have "ln (1 / x) \<le> 1 / x - 1"
    by (intro ln_le_minus_one) simp
  then show ?thesis using x by (simp add: ln_div)
qed

lemma pos_div_ln:
  assumes "0 < a" "a \<le> 1" "5 / 4 \<le> r"
  shows "\<exists>d. Fin a / Fin (ln r) = Fin d \<and> 0 < d"
proof -
  have "1 - 1 / (5 / 4) \<le> ln (5 / 4 :: real)"
    by (rule ln_lower_bound) simp
  moreover have "ln (5 / 4) \<le> ln r"
    using assms(3) by simp
  ultimately have l: "1 / 5 \<le> ln r" by simp
  then have pos: "0 < a / ln r"
    using assms(1) by simp
  have "a / ln r \<le> 1 / (1 / 5)"
    using assms(1,2) l by (intro frac_le) simp_all
  then have "\<bar>a / ln r\<bar> < 2 ^ 1000"
    using pos by simp
  then have "fin (a / ln r) = Fin (a / ln r)"
    by (rule fin_small)
  then show ?thesis
    using l pos by (intro exI[of _ "a / ln r"]) simp
qed

lemma example_logarithmicDerivative:
  "logarithmicDerivative [Fin 1, Fin 3, Fin 4, Fin 5]
     [Fin (2 / 3), Fin (3 / 4), Fin (3 / 4), Fin 1] =
   [Fin (1 / 12) / Fin (ln 3), Fin (1 / 12) / Fin (ln 4),
    Fin (1 / 4) / Fin (ln (5 / 3)), Fin (1 / 4) / Fin (ln (5 / 4))]"
  by (simp add: logarithmicDerivative_def new_Array_def js_get_def js_set_def upt_rec
      fin_small minus_number_def Let_def)

lemma example_rateIntegralDerivative:
  "\<exists>d0 d1 d2 d3.
     calculateRateIntegralDerivative [Fin 1, Fin 3, Fin 4, Fin 5] [Fin 0, Fin 1, Fin 1, Fin 1] =
     [Fin d0, Fin d1, Fin d2, Fin d3] \<and> 0 < d1 \<and> 0 < d2 \<and> 0 < d3"
  using pos_div_ln [of "1 / 12" 3] pos_div_ln [of "1 / 12" 4] pos_div_ln [of "1 / 4" "5 / 3"]
    pos_div_ln [of "1 / 4" "5 / 4"]
  unfolding calculateRateIntegralDerivative_def Let_def example_movingAverage
    example_logarithmicDerivative
  by auto

lemma calculate_example:
  "\<exists>d1 d2 d3. 0 < d1 \<and> 0 < d2 \<and> 0 < d3 \<and>
   calculate \<lparr> dates = [Fin 0, Fin 86400000, Fin 172800000, Fin 259200000],
       rates = [Fin 200, Fin 100, Fin 100, Fin 100],
       cumulativeProduction = [Fin 200, Fin 300, Fin 400, Fin 500],
       pressures = Some [Fin 4900, Fin 4900, Fin 4900, Fin 4900],
       initialPressure = Fin 5000, wellboreRadius = Fin 0.3,
       netPayThickness = Fin 100, porosity = Fin 0.1, totalCompressibility = Fin 0.00001,
       viscosity = Fin 0.5, formationVolumeFactor = Fin 1.2 \<rparr> =
   Inr \<lparr> BlasingameOutput.teDimensionless = [],
         materialBalanceTime = [Fin 3, Fin 4, Fin 5],
         BlasingameOutput.qDd = [Fin 1, Fin 1, Fin 1],
         BlasingameOutput.qDdi = [Fin 1, Fin 1, Fin 1],
         BlasingameOutput.qDdid = [Fin d1, Fin d2, Fin d3],
         pressureDrops = [Fin 100, Fin 100, Fin 100, Fin 100],
         times = [Fin 0, Fin 1, Fin 2, Fin 3],
         rates = [Fin 200, Fin 100, Fin 100, Fin 100] \<rparr>"
proof -
  obtain d0 d1 d2 d3 where d:
    "calculateRateIntegralDerivative [Fin 1, Fin 3, Fin 4, Fin 5] [Fin 0, Fin 1, Fin 1, Fin 1] =
     [Fin d0, Fin d1, Fin d2, Fin d3]" and pos: "0 < d1" "0 < d2" "0 < d3"
    using example_rateIntegralDerivative by blast
  have days: "datesToDays [Fin 0, Fin 86400000, Fin 172800000, Fin 259200000] =
              [Fin 0, Fin 1, Fin 2, Fin 3]"
    by (simp add: datesToDays_def js_get_def minus_number_def fin_small Let_def)
  have cl: "cleanData ([Fin 1, Fin 3, Fin 4, Fin 5], [Fin 2, Fin 1, Fin 1, Fin 1],
                      [Fin 0, Fin 1, Fin 1, Fin 1], [Fin d0, Fin d1, Fin d2, Fin d3]) =
            ([Fin 3, Fin 4, Fin 5], [Fin 1, Fin 1, Fin 1], [Fin 1, Fin 1, Fin 1],
             [Fin d1, Fin d2, Fin d3])"
    using pos by (simp add: cleanData_def js_get_def Let_def)
  have "0 < d1 \<and> 0 < d2 \<and> 0 < d3 \<and>
   calculate \<lparr> dates = [Fin 0, Fin 86400000, Fin 172800000, Fin 259200000],
       rates = [Fin 200, Fin 100, Fin 100, Fin 100],
       cumulativeProduction = [Fin 200, Fin 300, Fin 400, Fin 500],
       pressures = Some [Fin 4900, Fin 4900, Fin 4900, Fin 4900],
       initialPressure = Fin 5000, wellboreRadius = Fin 0.3,
       netPayThickness = Fin 100, porosity = Fin 0.1, totalCompressibility = Fin 0.00001,
       viscosity = Fin 0.5, formationVolumeFactor = Fin 1.2 \<rparr> =
   Inr \<lparr> BlasingameOutput.teDimensionless = [],
         materialBalanceTime = [Fin 3, Fin 4, Fin 5],
         BlasingameOutput.qDd = [Fin 1, Fin 1, Fin 1],
         BlasingameOutput.qDdi = [Fin 1, Fin 1, Fin 1],
         BlasingameOutput.qDdid = [Fin d1, Fin d2, Fin d3],
         pressureDrops = [Fin 100, Fin 100, Fin 100, Fin 100],
         times = [Fin 0, Fin 1, Fin 2, Fin 3],
         rates = [Fin 200, Fin 100, Fin 100, Fin 100] \<rparr>"
    using pos
    by (simp add: calculate_def Let_def days example_materialBalanceTime
        example_pressureDrops example_normalizedRate example_rateIntegral d cl)
  then show ?thesis by blast
qed

theorem C4_cleaned_arrays_parallel_witness:
  "\<exists>out. calculate \<lparr> dates = [Fin 0, Fin 86400000, Fin 172800000, Fin 259200000],
       rates = [Fin 200, Fin 100, Fin 100, Fin 100],
       cumulativeProduction = [Fin 200, Fin 300, Fin 400, Fin 500],
       pressures = Some [Fin 4900, Fin 4900, Fin 4900, Fin 4900],
       initialPressure = Fin 5000, wellboreRadius = Fin 0.3,
       netPayThickness = Fin 100, porosity = Fin 0.1, totalCompressibility = Fin 0.00001,
       viscosity = Fin 0.5, formationVolumeFactor = Fin 1.2 \<rparr> = Inr out \<and>
     materialBalanceTime out = [Fin 3, Fin 4, Fin 5] \<and>
     length (BlasingameOutput.qDdid out) = 3 \<and>
     isFinite (BlasingameOutput.qDdid out ! 2) \<and> BlasingameOutput.qDdid out ! 2 > Fin 0"
proof -
  let ?inp = "\<lparr> dates = [Fin 0, Fin 86400000, Fin 172800000, Fin 259200000],
       rates = [Fin 200, Fin 100, Fin 100, Fin 100],
       cumulativeProduction = [Fin 200, Fin 300, Fin 400, Fin 500],
       pressures = Some [Fin 4900, Fin 4900, Fin 4900, Fin 4900],
       initialPressure = Fin 5000, wellboreRadius = Fin 0.3,
       netPayThickness = Fin 100, porosity = Fin 0.1, totalCompressibility = Fin 0.00001,
       viscosity = Fin 0.5, formationVolumeFactor = Fin 1.2 \<rparr>"
  obtain out where o: "calculate ?inp = Inr out"
    and m: "materialBalanceTime out = [Fin 3, Fin 4, Fin 5]"
    using calculate_example by auto
  have "(2::nat) < length (materialBalanceTime out)" by (simp add: m)
  with C4_cleaned_arrays_parallel [OF o] have "length (BlasingameOutput.qDdid out) = 3 \<and>
     isFinite (BlasingameOutput.qDdid out ! 2) \<and> BlasingameOutput.qDdid out ! 2 > Fin 0"
    by (simp add: m)
  with o m show ?thesis by blast
qed

end
